theory Spec2Isabelle
  imports Main "HOL-Library.Sublist"
begin

section \<open>Obsidian Scholar: the note reader, the template renderer and the artifact writer\<close>

text \<open>
  A shallow embedding of \<^verbatim>\<open>src/obsidianScholar.ts\<close> (class \<^verbatim>\<open>ObsidianScholar\<close>).
  JavaScript strings are modelled as \<^typ>\<open>string\<close>: one \<^typ>\<open>char\<close> per code unit, which
  covers the code units up to 255. The host application (vault, adapter, workspace,
  notices, network) is an explicit state that every operation takes and returns.
\<close>

subsection \<open>JavaScript string primitives used by the source\<close>

text \<open>
  A matcher is a regular expression tried at the head of a string: it returns the length
  of the match that starts there, if any. A replacer computes the replacement from the
  text before the match, the matched text and the text after it.
\<close>

type_synonym matcher = "string \<Rightarrow> nat option"
type_synonym replacer = "string \<Rightarrow> string \<Rightarrow> string \<Rightarrow> string"

text \<open>
  \<^verbatim>\<open>s.replace(/re/g, r)\<close>: scan from the left, replace every match and continue behind
  it, copy every other code unit. None of the expressions of the source matches the
  empty string, so a match is at least one code unit long.
\<close>

fun replace_global :: "matcher \<Rightarrow> replacer \<Rightarrow> string \<Rightarrow> string \<Rightarrow> string" where
  "replace_global m f pre [] = []"
| "replace_global m f pre (c # cs) =
     (case m (c # cs) of
        Some (Suc n) \<Rightarrow>
          f pre (take (Suc n) (c # cs)) (drop n cs)
            @ replace_global m f (pre @ take (Suc n) (c # cs)) (drop n cs)
      | _ \<Rightarrow> c # replace_global m f (pre @ [c]) cs)"

text \<open>
  The replacement patterns of a replacement string (ECMAScript GetSubstitution) for an
  expression without capture groups: \<^verbatim>\<open>$$\<close> is a dollar sign, \<^verbatim>\<open>$&\<close> the matched
  text, a dollar sign before code unit 0x60 (grave accent) the text before the match, a
  dollar sign before code unit 0x27 (apostrophe) the text after it; every other dollar
  sign stands for itself.
\<close>

fun get_substitution :: "string \<Rightarrow> string \<Rightarrow> string \<Rightarrow> string \<Rightarrow> string" where
  "get_substitution matched pre post [] = []"
| "get_substitution matched pre post [c] = [c]"
| "get_substitution matched pre post (c # d # r) =
     (if c = CHR ''$'' then
        (if d = CHR ''$'' then CHR ''$'' # get_substitution matched pre post r
         else if d = CHR ''&'' then matched @ get_substitution matched pre post r
         else if d = CHR 0x60 then pre @ get_substitution matched pre post r
         else if d = CHR 0x27 then post @ get_substitution matched pre post r
         else c # get_substitution matched pre post (d # r))
      else c # get_substitution matched pre post (d # r))"

definition string_replacer :: "string \<Rightarrow> replacer" where
  "string_replacer r pre matched post = get_substitution matched pre post r"

text \<open>A literal expression such as \<^verbatim>\<open>/{{title}}/\<close>.\<close>

definition match_literal :: "string \<Rightarrow> matcher" where
  "match_literal tok s = (if prefix tok s then Some (length tok) else None)"

text \<open>A negated or plain character class, one code unit long.\<close>

definition match_class :: "(char \<Rightarrow> bool) \<Rightarrow> matcher" where
  "match_class P s = (case s of [] \<Rightarrow> None | c # _ \<Rightarrow> if P c then Some 1 else None)"

text \<open>
  The dot of a regular expression matches every code unit but a line terminator
  (line feed and carriage return here; U+2028 and U+2029 lie outside \<^typ>\<open>char\<close>).
\<close>

definition is_line_terminator :: "char \<Rightarrow> bool" where
  "is_line_terminator c = (c = CHR 0x0A \<or> c = CHR 0x0D)"

text \<open>
  \<^verbatim>\<open>(.*?)\<close> followed by a literal \<^verbatim>\<open>close\<close>: the shortest run of non-terminators after
  which \<^verbatim>\<open>close\<close> stands; the result is the length of the run.
\<close>

fun lazy_body :: "string \<Rightarrow> string \<Rightarrow> nat option" where
  "lazy_body close [] = (if close = [] then Some 0 else None)"
| "lazy_body close (c # cs) =
     (if prefix close (c # cs) then Some 0
      else if is_line_terminator c then None
      else map_option Suc (lazy_body close cs))"

text \<open>The capture group of \<^verbatim>\<open>/open(.*?)close/\<close> tried at the head of a string.\<close>

definition capture_lazy :: "string \<Rightarrow> string \<Rightarrow> string \<Rightarrow> string option" where
  "capture_lazy opn cls s =
     (if prefix opn s then
        (case lazy_body cls (drop (length opn) s) of
           None \<Rightarrow> None
         | Some k \<Rightarrow> Some (take k (drop (length opn) s)))
      else None)"

definition match_lazy :: "string \<Rightarrow> string \<Rightarrow> matcher" where
  "match_lazy opn cls s =
     (case capture_lazy opn cls s of
        None \<Rightarrow> None
      | Some body \<Rightarrow> Some (length opn + length body + length cls))"

text \<open>
  \<^verbatim>\<open>s.match(re)\<close> without the global flag: the leftmost position at which the expression
  matches, or \<^verbatim>\<open>null\<close>.
\<close>

fun first_match :: "(string \<Rightarrow> 'a option) \<Rightarrow> string \<Rightarrow> 'a option" where
  "first_match m [] = m []"
| "first_match m (c # cs) = (case m (c # cs) of Some r \<Rightarrow> Some r | None \<Rightarrow> first_match m cs)"

text \<open>
  \<^verbatim>\<open>s.replace(pat, r)\<close> with a string pattern: only the first occurrence is replaced.
\<close>

fun replace_first :: "string \<Rightarrow> string \<Rightarrow> string \<Rightarrow> string \<Rightarrow> string" where
  "replace_first pat r pre [] = (if pat = [] then get_substitution [] pre [] r else [])"
| "replace_first pat r pre (c # cs) =
     (if prefix pat (c # cs)
      then get_substitution pat pre (drop (length pat) (c # cs)) r @ drop (length pat) (c # cs)
      else c # replace_first pat r (pre @ [c]) cs)"

text \<open>\<^verbatim>\<open>xs.join(sep)\<close> and \<^verbatim>\<open>s.split(",")\<close>.\<close>

fun join :: "string \<Rightarrow> string list \<Rightarrow> string" where
  "join sep [] = []"
| "join sep [x] = x"
| "join sep (x # y # ys) = x @ sep @ join sep (y # ys)"

fun split_at :: "char \<Rightarrow> string \<Rightarrow> string list" where
  "split_at d [] = [[]]"
| "split_at d (c # cs) =
     (if c = d then [] # split_at d cs
      else (case split_at d cs of [] \<Rightarrow> [[c]] | x # xs \<Rightarrow> (c # x) # xs))"

text \<open>Truthiness of a possibly absent string: present and not empty.\<close>

definition truthy :: "string option \<Rightarrow> bool" where
  "truthy v = (case v of None \<Rightarrow> False | Some s \<Rightarrow> s \<noteq> [])"

subsection \<open>Data model\<close>

text \<open>
  Modelled from the spec: the interface \<^verbatim>\<open>StructuredPaperData\<close>, which the source imports
  from \<^verbatim>\<open>paperData.ts\<close>. The fields are those of the data model of the specification;
  they are the ones the source reads and writes. An optional field is an
  \<^typ>\<open>'a option\<close>, \<^term>\<open>None\<close> for \<^verbatim>\<open>undefined\<close>.
\<close>

record StructuredPaperData =
  title :: string
  authors :: "string list"
  abstract :: string
  url :: string
  pdfUrl :: "string option"
  pdfPath :: "string option"
  venue :: "string option"
  publicationDate :: "string option"
  tags :: "string list option"
  citekey :: "string option"
  bibtex :: "string option"

text \<open>
  The front-matter of a note as the metadata cache gives it: every key is optional.
  The values are taken to be of the types the note template writes: strings, and a list
  of strings for the tags.
\<close>

record frontmatter =
  fm_title :: "string option"
  fm_authors :: "string option"
  fm_abstract :: "string option"
  fm_url :: "string option"
  fm_venue :: "string option"
  fm_year :: "string option"
  fm_tags :: "string list option"
  fm_pdf :: "string option"
  fm_citekey :: "string option"

text \<open>A note file: its base name and its cached front-matter, if it has one.\<close>

record tfile =
  basename :: string
  cache_frontmatter :: "frontmatter option"

record settings =
  NoteLocation :: string
  pdfDownloadLocation :: string
  templateFileLocation :: string
  bibTexFileLocation :: string
  saveBibTexSetting :: bool
  openPdfAfterDownload :: bool

text \<open>What an operation can throw or reject with.\<close>

datatype error =
    TypeError
  | ReadError
  | FileExists
  | RequestFailed
  | Rejected string

text \<open>
  The host: the files of the vault (the adapter and the vault index are taken to agree),
  the notices shown, the links opened in the workspace, the files opened in a split
  leaf, and the network requests sent.
\<close>

datatype node = File string | Folder

record host =
  files :: "string \<rightharpoonup> node"
  notices :: "string list"
  opened :: "string list"
  leaf_opened :: "string list"
  requests :: "string list"

definition notice :: "string \<Rightarrow> host \<Rightarrow> host" where
  "notice msg h = h\<lparr>notices := notices h @ [msg]\<rparr>"

definition openLinkText :: "string \<Rightarrow> host \<Rightarrow> host" where
  "openLinkText p h = h\<lparr>opened := opened h @ [p]\<rparr>"

definition adapter_exists :: "host \<Rightarrow> string \<Rightarrow> bool" where
  "adapter_exists h p = (files h p \<noteq> None)"

text \<open>\<^verbatim>\<open>vault.create\<close> and \<^verbatim>\<open>vault.createBinary\<close> refuse a path that is taken.\<close>

definition vault_create :: "string \<Rightarrow> string \<Rightarrow> host \<Rightarrow> error + host" where
  "vault_create p content h =
     (if files h p \<noteq> None then Inl FileExists
      else Inr (h\<lparr>files := (files h)(p \<mapsto> File content)\<rparr>))"

text \<open>\<^verbatim>\<open>vault.append(file, data)\<close> writes \<^verbatim>\<open>data\<close> behind the content of the file.\<close>

definition vault_append :: "string \<Rightarrow> string \<Rightarrow> string \<Rightarrow> host \<Rightarrow> host" where
  "vault_append p old d h = h\<lparr>files := (files h)(p \<mapsto> File (old @ d))\<rparr>"

subsection \<open>constructFileName\<close>

definition in_range :: "char \<Rightarrow> char \<Rightarrow> char \<Rightarrow> bool" where
  "in_range lo hi c = ((of_char lo :: nat) \<le> of_char c \<and> (of_char c :: nat) \<le> of_char hi)"

text \<open>The class \<^verbatim>\<open>[a-zA-Z0-9 ]\<close>.\<close>

definition filename_char :: "char \<Rightarrow> bool" where
  "filename_char c =
     (in_range CHR ''a'' CHR ''z'' c \<or> in_range CHR ''A'' CHR ''Z'' c
      \<or> in_range CHR ''0'' CHR ''9'' c \<or> c = CHR '' '')"

text \<open>\<^verbatim>\<open>paperData.title.replace(/[^a-zA-Z0-9 ]/g, "")\<close>\<close>

definition constructFileName :: "StructuredPaperData \<Rightarrow> string" where
  "constructFileName paperData =
     replace_global (match_class (\<lambda>c. \<not> filename_char c)) (string_replacer []) [] (title paperData)"

subsection \<open>getPaperDataFromLocalFile\<close>

text \<open>
  \<^verbatim>\<open>pdfPath.match(/\[\[(.*?)\]\]/)\<close>: the capture group of the leftmost match, or
  \<^verbatim>\<open>null\<close>.
\<close>

definition match_link :: "string \<Rightarrow> string option" where
  "match_link s = first_match (capture_lazy ''[['' '']]'') s"

text \<open>
  Line 33 indexes the result of \<^verbatim>\<open>match\<close> without a check, so \<^verbatim>\<open>null\<close> there is a
  TypeError. Line 37 calls \<^verbatim>\<open>split\<close> on \<^verbatim>\<open>frontmatter?.authors\<close>: the optional chain
  guards the front-matter only, so a front-matter without authors is a TypeError too.
\<close>

definition getPaperDataFromLocalFile :: "tfile \<Rightarrow> error + StructuredPaperData" where
  "getPaperDataFromLocalFile file =
     (let fm = cache_frontmatter file;
          pdfPath0 = (case fm of None \<Rightarrow> [] | Some f \<Rightarrow> (case fm_pdf f of None \<Rightarrow> [] | Some p \<Rightarrow> p))
      in case match_link pdfPath0 of
           None \<Rightarrow> Inl TypeError
         | Some path \<Rightarrow>
             (case (case fm of
                      None \<Rightarrow> Inr []
                    | Some f \<Rightarrow> (case fm_authors f of
                                   None \<Rightarrow> Inl TypeError
                                 | Some a \<Rightarrow> Inr (split_at CHR '','' a))) of
                Inl e \<Rightarrow> Inl e
              | Inr as \<Rightarrow>
                  Inr \<lparr> title = (case Option.bind fm fm_title of None \<Rightarrow> basename file | Some t \<Rightarrow> t),
                        authors = as,
                        abstract = (case Option.bind fm fm_abstract of None \<Rightarrow> [] | Some t \<Rightarrow> t),
                        url = (case Option.bind fm fm_url of None \<Rightarrow> [] | Some t \<Rightarrow> t),
                        pdfUrl = None,
                        pdfPath = Some path,
                        venue = Some (case Option.bind fm fm_venue of None \<Rightarrow> [] | Some t \<Rightarrow> t),
                        publicationDate = Some (case Option.bind fm fm_year of None \<Rightarrow> [] | Some t \<Rightarrow> t),
                        tags = Some (case Option.bind fm fm_tags of None \<Rightarrow> [] | Some t \<Rightarrow> t),
                        citekey = Some (case Option.bind fm fm_citekey of None \<Rightarrow> [] | Some t \<Rightarrow> t),
                        bibtex = None \<rparr>))"

subsection \<open>The plugin object and what it imports\<close>

text \<open>
  The fields of the object (\<^verbatim>\<open>settings\<close>, \<^verbatim>\<open>pathSep\<close>) and the names it imports from
  modules outside the source: \<^verbatim>\<open>getDate\<close> of \<^verbatim>\<open>utility.ts\<close> (from a format to the
  formatted current time), the two constants of \<^verbatim>\<open>constants.ts\<close>, and \<^verbatim>\<open>requestUrl\<close>
  of the host (the body of the response, or a failure).
\<close>

record env =
  settings :: settings
  pathSep :: string
  getDate :: "string \<Rightarrow> string"
  NOTE_TEMPLATE_DEFAULT :: string
  FILE_ALREADY_EXISTS :: string
  requestUrl :: "string \<Rightarrow> string option"

subsection \<open>createFileWithTemplate\<close>

text \<open>\<^verbatim>\<open>template.replace(/{{tok}}/g, value)\<close> with a replacement string.\<close>

definition replace_token :: "string \<Rightarrow> string \<Rightarrow> string \<Rightarrow> string" where
  "replace_token tok v s = replace_global (match_literal tok) (string_replacer v) [] s"

text \<open>
  \<^verbatim>\<open>template.replace(/{{date:(.*?)}}/g, (_, format) => getDate({ format }))\<close>: the
  replacement is computed from the capture group and inserted as it is.
\<close>

definition replace_format_token :: "string \<Rightarrow> (string \<Rightarrow> string) \<Rightarrow> string \<Rightarrow> string" where
  "replace_format_token opn g s =
     replace_global (match_lazy opn ''}}'')
       (\<lambda>pre m post. g (take (length m - length opn - 2) (drop (length opn) m))) [] s"

text \<open>\<^verbatim>\<open>value.replace("\n", " ")\<close>: a string pattern, so the first line feed only.\<close>

definition replace_newline :: "string \<Rightarrow> string" where
  "replace_newline s = replace_first [CHR 0x0A] '' '' [] s"

text \<open>Lines 71 to 90: the replacements, in the order of the source.\<close>

definition render :: "(string \<Rightarrow> string) \<Rightarrow> StructuredPaperData \<Rightarrow> string \<Rightarrow> string" where
  "render gd paperData template0 =
     (let t1 = replace_token ''{{date}}'' (gd ''YYYY-MM-DD'') template0;
          t2 = replace_token ''{{time}}'' (gd ''HH:mm'') t1;
          t3 = replace_format_token ''{{date:'' gd t2;
          t4 = replace_format_token ''{{time:'' gd t3;
          t5 = replace_token ''{{title}}'' (replace_newline (title paperData)) t4;
          t6 = replace_token ''{{authors}}'' (replace_newline (join '', '' (authors paperData))) t5;
          t7 = replace_token ''{{abstract}}'' (replace_newline (abstract paperData)) t6;
          t8 = replace_token ''{{url}}''
                 (if url paperData \<noteq> [] then replace_newline (url paperData) else []) t7;
          t9 = replace_token ''{{venue}}''
                 (if truthy (venue paperData)
                  then replace_newline (case venue paperData of Some v \<Rightarrow> v | None \<Rightarrow> [])
                  else []) t8;
          t10 = replace_token ''{{publicationDate}}''
                 (if truthy (publicationDate paperData)
                  then replace_newline (case publicationDate paperData of Some v \<Rightarrow> v | None \<Rightarrow> [])
                  else []) t9;
          t11 = replace_token ''{{tags}}''
                 (case tags paperData of None \<Rightarrow> [] | Some ts \<Rightarrow> join '', '' ts) t10;
          t12 = replace_token ''{{pdf}}''
                 (if truthy (pdfPath paperData)
                  then ''[['' @ (case pdfPath paperData of Some p \<Rightarrow> p | None \<Rightarrow> []) @ '']]''
                  else []) t11
      in if truthy (citekey paperData)
         then replace_token ''{{citekey}}'' (case citekey paperData of Some k \<Rightarrow> k | None \<Rightarrow> []) t12
         else t12)"

text \<open>
  Lines 61 to 67: the template is the content of the configured template file when the
  vault has a file there, and the default template otherwise.
\<close>

definition createFileWithTemplate :: "env \<Rightarrow> host \<Rightarrow> StructuredPaperData \<Rightarrow> string" where
  "createFileWithTemplate e h paperData =
     (let template0 = (case files h (templateFileLocation (settings e)) of
                         Some (File content) \<Rightarrow> content
                       | _ \<Rightarrow> NOTE_TEMPLATE_DEFAULT e)
      in render (getDate e) paperData template0)"

subsection \<open>createFileFromPaperData\<close>

text \<open>
  \<^verbatim>\<open>leaf.openFile\<close> is not awaited and its outcome is not observed by the source; the
  model records the path handed to it.
\<close>

definition createFileFromPaperData ::
    "env \<Rightarrow> StructuredPaperData \<Rightarrow> string \<Rightarrow> host \<Rightarrow> error + host" where
  "createFileFromPaperData e paperData pathToFile h =
     (let template = createFileWithTemplate e h paperData in
      case (if adapter_exists h pathToFile
            then Inr (openLinkText pathToFile (notice (FILE_ALREADY_EXISTS e) h))
            else (case vault_create pathToFile template h of
                    Inl err \<Rightarrow> Inl err
                  | Inr h' \<Rightarrow> Inr (openLinkText pathToFile h'))) of
        Inl err \<Rightarrow> Inl err
      | Inr h1 \<Rightarrow>
          Inr (if openPdfAfterDownload (settings e) \<and> truthy (pdfPath paperData)
               then h1\<lparr>leaf_opened := leaf_opened h1
                          @ [case pdfPath paperData of Some p \<Rightarrow> p | None \<Rightarrow> []]\<rparr>
               else h1))"

subsection \<open>downloadPdf\<close>

text \<open>
  The promise of \<^verbatim>\<open>downloadPdf\<close>: \<^term>\<open>Inl\<close> is a rejection, \<^term>\<open>Inr\<close> resolves with the
  path of the file. The host is returned in both cases.
\<close>

definition downloadPdf :: "env \<Rightarrow> string option \<Rightarrow> string \<Rightarrow> host \<Rightarrow> (error + string) \<times> host" where
  "downloadPdf e pdfUrl0 filename h =
     (case pdfUrl0 of
        None \<Rightarrow> (Inl (Rejected ''pdfUrl is undefined or null''), h)
      | Some u \<Rightarrow>
          if u = [] then (Inl (Rejected ''pdfUrl is undefined or null''), h)
          else
            (let pdfDownloadFolder = pdfDownloadLocation (settings e);
                 pdfSavePath = pdfDownloadFolder @ pathSep e @ filename @ ''.pdf''
             in if adapter_exists h pdfSavePath then (Inr pdfSavePath, h)
                else
                  (let h1 = h\<lparr>requests := requests h @ [u]\<rparr>
                   in case requestUrl e u of
                        None \<Rightarrow> (Inl RequestFailed, h1)
                      | Some arrayBuffer \<Rightarrow>
                          (case vault_create pdfSavePath arrayBuffer h1 of
                             Inl err \<Rightarrow> (Inl err, h1)
                           | Inr h2 \<Rightarrow> (Inr pdfSavePath, h2)))))"

subsection \<open>saveBibTex\<close>

text \<open>
  Line 169 declares a second \<^verbatim>\<open>bibtexText\<close> inside the block of the \<^verbatim>\<open>if\<close>: the content
  read from the file lives in that inner variable, and the outer one of line 167, which
  line 182 uses, is still the empty string. \<^verbatim>\<open>adapter.read\<close> of a folder fails.
  \<^verbatim>\<open>vault.append\<close> is not awaited by the source; the model lets it complete at once.
\<close>

definition saveBibTex :: "env \<Rightarrow> string \<Rightarrow> host \<Rightarrow> error + host" where
  "saveBibTex e bibtex0 h =
     (if \<not> saveBibTexSetting (settings e) then Inr h
      else
        (let bibTexPath = bibTexFileLocation (settings e) in
         if bibTexPath = [] then Inr (notice ''BibTex location is not set in the settings.'' h)
         else
           (let bibtexText = [] in
            case (if adapter_exists h bibTexPath
                  then (case files h bibTexPath of
                          Some (File inner) \<Rightarrow> Inr (sublist bibtex0 inner)
                        | _ \<Rightarrow> Inl ReadError)
                  else Inr False) of
              Inl err \<Rightarrow> Inl err
            | Inr True \<Rightarrow> Inr (notice ''BibTex entry already exists.'' h)
            | Inr False \<Rightarrow>
                (case files h bibTexPath of
                   Some (File old) \<Rightarrow>
                     Inr (notice ''BibTex entry saved.''
                            (vault_append bibTexPath old
                               (bibtex0 @ [CHR 0x0A, CHR 0x0A] @ bibtexText) h))
                 | _ \<Rightarrow> Inr (notice ''BibTex file not found.'' h)))))"

subsection \<open>downloadAndSavePaperNotePDF\<close>

definition downloadAndSavePaperNotePDF :: "env \<Rightarrow> StructuredPaperData \<Rightarrow> host \<Rightarrow> error + host" where
  "downloadAndSavePaperNotePDF e paperData h =
     (let paperFilename = constructFileName paperData in
      case (if \<not> truthy (pdfUrl paperData)
            then Inr (paperData,
                   notice ''No pdf url found. You might need to find the PDF manually.'' h)
            else (case downloadPdf e (pdfUrl paperData) paperFilename h of
                    (Inl err, h') \<Rightarrow> Inl err
                  | (Inr p, h') \<Rightarrow> Inr (paperData\<lparr>pdfPath := Some p\<rparr>, h'))) of
        Inl err \<Rightarrow> Inl err
      | Inr (paperData1, h1) \<Rightarrow>
          (let pathToFile = NoteLocation (settings e) @ pathSep e @ paperFilename @ ''.md'' in
           case createFileFromPaperData e paperData1 pathToFile h1 of
             Inl err \<Rightarrow> Inl err
           | Inr h2 \<Rightarrow>
               if truthy (bibtex paperData1)
               then saveBibTex e (case bibtex paperData1 of Some b \<Rightarrow> b | None \<Rightarrow> []) h2
               else Inr h2))"

subsection \<open>Two calls of saveBibTex\<close>

text \<open>
  The source does not await the promise of \<^verbatim>\<open>vault.append\<close> (lines 181 to 188), so the
  call returns with the append started. \<^verbatim>\<open>saveBibTex_issue\<close> is the call as far as it
  runs before it returns: the host as the call leaves it, and the append it has
  started, if any (the path of the file and the data).
\<close>

definition saveBibTex_issue ::
    "env \<Rightarrow> string \<Rightarrow> host \<Rightarrow> error + host \<times> (string \<times> string) option" where
  "saveBibTex_issue e bibtex0 h =
     (if \<not> saveBibTexSetting (settings e) then Inr (h, None)
      else
        (let bibTexPath = bibTexFileLocation (settings e) in
         if bibTexPath = []
         then Inr (notice ''BibTex location is not set in the settings.'' h, None)
         else
           (let bibtexText = [] in
            case (if adapter_exists h bibTexPath
                  then (case files h bibTexPath of
                          Some (File inner) \<Rightarrow> Inr (sublist bibtex0 inner)
                        | _ \<Rightarrow> Inl ReadError)
                  else Inr False) of
              Inl err \<Rightarrow> Inl err
            | Inr True \<Rightarrow> Inr (notice ''BibTex entry already exists.'' h, None)
            | Inr False \<Rightarrow>
                (case files h bibTexPath of
                   Some (File old) \<Rightarrow>
                     Inr (h, Some (bibTexPath, bibtex0 @ [CHR 0x0A, CHR 0x0A] @ bibtexText))
                 | _ \<Rightarrow> Inr (notice ''BibTex file not found.'' h, None)))))"

text \<open>
  The append completes: the data is written behind the content the file has at that
  moment and the notice of lines 183 to 185 is shown. The append of a file that is gone
  fails with the notice of lines 186 to 188; the text of the failure is the host's.
\<close>

definition complete_append :: "string \<Rightarrow> string \<times> string \<Rightarrow> host \<Rightarrow> host" where
  "complete_append failure a h =
     (case files h (fst a) of
        Some (File content) \<Rightarrow>
          notice ''BibTex entry saved.'' (h\<lparr>files := (files h)(fst a \<mapsto> File (content @ snd a))\<rparr>)
      | _ \<Rightarrow> notice (''Error: '' @ failure) h)"

definition complete_pending :: "string \<Rightarrow> (string \<times> string) option \<Rightarrow> host \<Rightarrow> host" where
  "complete_pending failure w h = (case w of None \<Rightarrow> h | Some a \<Rightarrow> complete_append failure a h)"

text \<open>
  Two calls with the same entry. In the first order the append of the first call has
  completed before the second call starts; in the second order the second call runs
  while the append of the first is still under way, and both appends complete
  afterwards.
\<close>

definition saveBibTex_twice_completed :: "string \<Rightarrow> env \<Rightarrow> string \<Rightarrow> host \<Rightarrow> error + host" where
  "saveBibTex_twice_completed failure e b h =
     (case saveBibTex_issue e b h of
        Inl err \<Rightarrow> Inl err
      | Inr (h1, w1) \<Rightarrow>
          (case saveBibTex_issue e b (complete_pending failure w1 h1) of
             Inl err \<Rightarrow> Inl err
           | Inr (h2, w2) \<Rightarrow> Inr (complete_pending failure w2 h2)))"

definition saveBibTex_twice_overlapping :: "string \<Rightarrow> env \<Rightarrow> string \<Rightarrow> host \<Rightarrow> error + host" where
  "saveBibTex_twice_overlapping failure e b h =
     (case saveBibTex_issue e b h of
        Inl err \<Rightarrow> Inl err
      | Inr (h1, w1) \<Rightarrow>
          (case saveBibTex_issue e b h1 of
             Inl err \<Rightarrow> Inl err
           | Inr (h2, w2) \<Rightarrow> Inr (complete_pending failure w2 (complete_pending failure w1 h2))))"

text \<open>The number of positions of a text at which an entry stands.\<close>

fun occurrences :: "string \<Rightarrow> string \<Rightarrow> nat" where
  "occurrences b [] = (if b = [] then 1 else 0)"
| "occurrences b (c # cs) = (if prefix b (c # cs) then 1 else 0) + occurrences b cs"

definition file_occurrences :: "string \<Rightarrow> string \<Rightarrow> host \<Rightarrow> nat option" where
  "file_occurrences b path h =
     (case files h path of Some (File content) \<Rightarrow> Some (occurrences b content) | _ \<Rightarrow> None)"

subsection \<open>Templates as sequences of literal text and tokens\<close>

text \<open>
  The reference the renderer is compared with: a template taken apart into literal
  text and tokens, and the substitution of every token by its value in a single pass.
  The value of a token without a format is the replacement string the source computes
  for it; the value of \<^verbatim>\<open>{{date:F}}\<close> and of \<^verbatim>\<open>{{time:F}}\<close> is \<^verbatim>\<open>getDate\<close> of the
  format \<^verbatim>\<open>F\<close>. The token \<^verbatim>\<open>{{citekey}}\<close> stays when the record has no cite key.
\<close>

datatype token = TDate | TTime | TTitle | TAuthors | TAbstract | TUrl | TVenue
  | TPublicationDate | TTags | TPdf | TCitekey

datatype piece = Lit string | Tok token | DateFmt string | TimeFmt string

fun token_text :: "token \<Rightarrow> string" where
  "token_text TDate = ''{{date}}''"
| "token_text TTime = ''{{time}}''"
| "token_text TTitle = ''{{title}}''"
| "token_text TAuthors = ''{{authors}}''"
| "token_text TAbstract = ''{{abstract}}''"
| "token_text TUrl = ''{{url}}''"
| "token_text TVenue = ''{{venue}}''"
| "token_text TPublicationDate = ''{{publicationDate}}''"
| "token_text TTags = ''{{tags}}''"
| "token_text TPdf = ''{{pdf}}''"
| "token_text TCitekey = ''{{citekey}}''"

fun field_text :: "(string \<Rightarrow> string) \<Rightarrow> StructuredPaperData \<Rightarrow> token \<Rightarrow> string" where
  "field_text gd p TDate = gd ''YYYY-MM-DD''"
| "field_text gd p TTime = gd ''HH:mm''"
| "field_text gd p TTitle = replace_newline (title p)"
| "field_text gd p TAuthors = replace_newline (join '', '' (authors p))"
| "field_text gd p TAbstract = replace_newline (abstract p)"
| "field_text gd p TUrl = (if url p \<noteq> [] then replace_newline (url p) else [])"
| "field_text gd p TVenue =
     (if truthy (venue p) then replace_newline (case venue p of Some v \<Rightarrow> v | None \<Rightarrow> [])
      else [])"
| "field_text gd p TPublicationDate =
     (if truthy (publicationDate p)
      then replace_newline (case publicationDate p of Some v \<Rightarrow> v | None \<Rightarrow> []) else [])"
| "field_text gd p TTags = (case tags p of None \<Rightarrow> [] | Some ts \<Rightarrow> join '', '' ts)"
| "field_text gd p TPdf =
     (if truthy (pdfPath p)
      then ''[['' @ (case pdfPath p of Some q \<Rightarrow> q | None \<Rightarrow> []) @ '']]'' else [])"
| "field_text gd p TCitekey = (case citekey p of Some k \<Rightarrow> k | None \<Rightarrow> [])"

fun piece_text :: "piece \<Rightarrow> string" where
  "piece_text (Lit l) = l"
| "piece_text (Tok t) = token_text t"
| "piece_text (DateFmt f) = ''{{date:'' @ f @ ''}}''"
| "piece_text (TimeFmt f) = ''{{time:'' @ f @ ''}}''"

definition template_text :: "piece list \<Rightarrow> string" where
  "template_text ps = concat (map piece_text ps)"

fun piece_value :: "(string \<Rightarrow> string) \<Rightarrow> StructuredPaperData \<Rightarrow> piece \<Rightarrow> string" where
  "piece_value gd p (Lit l) = l"
| "piece_value gd p (Tok t) = field_text gd p t"
| "piece_value gd p (DateFmt f) = gd f"
| "piece_value gd p (TimeFmt f) = gd f"

definition expand_piece :: "(string \<Rightarrow> string) \<Rightarrow> StructuredPaperData \<Rightarrow> piece \<Rightarrow> string" where
  "expand_piece gd p pc =
     (if pc = Tok TCitekey \<and> \<not> truthy (citekey p) then token_text TCitekey
      else piece_value gd p pc)"

definition expand :: "(string \<Rightarrow> string) \<Rightarrow> StructuredPaperData \<Rightarrow> piece list \<Rightarrow> string" where
  "expand gd p ps = concat (map (expand_piece gd p) ps)"

text \<open>
  A format without braces and line terminators, whose formatted time has no opening
  brace; literal text without an opening brace; a token whose value has neither an
  opening brace nor a dollar sign.
\<close>

definition plain_format :: "(string \<Rightarrow> string) \<Rightarrow> string \<Rightarrow> bool" where
  "plain_format gd f =
     (CHR ''{'' \<notin> set f \<and> CHR ''}'' \<notin> set f \<and> \<not> list_ex is_line_terminator f
      \<and> CHR ''{'' \<notin> set (gd f))"

fun plain_piece :: "(string \<Rightarrow> string) \<Rightarrow> StructuredPaperData \<Rightarrow> piece \<Rightarrow> bool" where
  "plain_piece gd p (Lit l) = (CHR ''{'' \<notin> set l)"
| "plain_piece gd p (Tok t) =
     (CHR ''{'' \<notin> set (field_text gd p t) \<and> CHR ''$'' \<notin> set (field_text gd p t))"
| "plain_piece gd p (DateFmt f) = plain_format gd f"
| "plain_piece gd p (TimeFmt f) = plain_format gd f"

text \<open>
  The passes of the renderer, and what a pass does to a piece: the token of the pass
  becomes literal text, its value.
\<close>

datatype pass = PTok token | PDateFmt | PTimeFmt

fun pass_replace ::
    "(string \<Rightarrow> string) \<Rightarrow> StructuredPaperData \<Rightarrow> pass \<Rightarrow> string \<Rightarrow> string" where
  "pass_replace gd p (PTok k) s = replace_token (token_text k) (field_text gd p k) s"
| "pass_replace gd p PDateFmt s = replace_format_token ''{{date:'' gd s"
| "pass_replace gd p PTimeFmt s = replace_format_token ''{{time:'' gd s"

fun pass_hits :: "pass \<Rightarrow> piece \<Rightarrow> bool" where
  "pass_hits (PTok k) pc = (pc = Tok k)"
| "pass_hits PDateFmt pc = (case pc of DateFmt f \<Rightarrow> True | _ \<Rightarrow> False)"
| "pass_hits PTimeFmt pc = (case pc of TimeFmt f \<Rightarrow> True | _ \<Rightarrow> False)"

definition pass_piece ::
    "(string \<Rightarrow> string) \<Rightarrow> StructuredPaperData \<Rightarrow> pass \<Rightarrow> piece \<Rightarrow> piece" where
  "pass_piece gd p q pc = (if pass_hits q pc then Lit (piece_value gd p pc) else pc)"

definition passes :: "StructuredPaperData \<Rightarrow> pass list" where
  "passes p =
     [PTok TDate, PTok TTime, PDateFmt, PTimeFmt, PTok TTitle, PTok TAuthors, PTok TAbstract,
      PTok TUrl, PTok TVenue, PTok TPublicationDate, PTok TTags, PTok TPdf]
     @ (if truthy (citekey p) then [PTok TCitekey] else [])"

text \<open>
  The opening pattern, the matcher and the replacer of a pass, as the source writes them,
  and the passes run over the pieces of a template.
\<close>

fun pass_open :: "pass \<Rightarrow> string" where
  "pass_open (PTok k) = token_text k"
| "pass_open PDateFmt = ''{{date:''"
| "pass_open PTimeFmt = ''{{time:''"

fun pass_matcher :: "pass \<Rightarrow> matcher" where
  "pass_matcher (PTok k) = match_literal (token_text k)"
| "pass_matcher PDateFmt = match_lazy ''{{date:'' ''}}''"
| "pass_matcher PTimeFmt = match_lazy ''{{time:'' ''}}''"

fun pass_replacer :: "(string \<Rightarrow> string) \<Rightarrow> StructuredPaperData \<Rightarrow> pass \<Rightarrow> replacer" where
  "pass_replacer gd p (PTok k) = string_replacer (field_text gd p k)"
| "pass_replacer gd p PDateFmt =
     (\<lambda>pre m post. gd (take (length m - length ''{{date:'' - 2) (drop (length ''{{date:'') m)))"
| "pass_replacer gd p PTimeFmt =
     (\<lambda>pre m post. gd (take (length m - length ''{{time:'' - 2) (drop (length ''{{time:'') m)))"

definition run_passes ::
    "(string \<Rightarrow> string) \<Rightarrow> StructuredPaperData \<Rightarrow> pass list \<Rightarrow> piece list \<Rightarrow> piece list" where
  "run_passes gd p qs ps = foldl (\<lambda>acc q. map (pass_piece gd p q) acc) ps qs"

text \<open>
  No suffix of \<^verbatim>\<open>w\<close> can be the start of a match of \<^verbatim>\<open>tok\<close>, whatever follows \<^verbatim>\<open>w\<close>:
  the two differ before either ends.
\<close>

fun no_match_in :: "string \<Rightarrow> string \<Rightarrow> bool" where
  "no_match_in tok [] = True"
| "no_match_in tok (c # cs) =
     (\<not> prefix tok (c # cs) \<and> \<not> prefix (c # cs) tok \<and> no_match_in tok cs)"

subsection \<open>Concrete inputs\<close>

definition example_settings :: settings where
  "example_settings =
     \<lparr> NoteLocation = ''notes'', pdfDownloadLocation = ''pdfs'',
       templateFileLocation = ''template.md'', bibTexFileLocation = ''refs.bib'',
       saveBibTexSetting = True, openPdfAfterDownload = False \<rparr>"

definition example_env :: env where
  "example_env =
     \<lparr> settings = example_settings, pathSep = ''/'', getDate = (\<lambda>format. format),
       NOTE_TEMPLATE_DEFAULT = ''# {{title}}'', FILE_ALREADY_EXISTS = ''File already exists'',
       requestUrl = (\<lambda>u. None) \<rparr>"

definition example_host :: host where
  "example_host =
     \<lparr> files = [''refs.bib'' \<mapsto> File ''@a{x}\<newline>'', ''pdfs/P.pdf'' \<mapsto> File ''%PDF'',
                ''notes/P.md'' \<mapsto> File ''old note''],
       notices = [], opened = [], leaf_opened = [], requests = [] \<rparr>"

definition empty_host :: host where
  "empty_host =
     \<lparr> files = Map.empty, notices = [], opened = [], leaf_opened = [], requests = [] \<rparr>"

definition example_paper :: StructuredPaperData where
  "example_paper =
     \<lparr> title = ''P'', authors = [''A'', ''B''], abstract = ''ABS'', url = ''http://x'',
       pdfUrl = Some ''http://x/p.pdf'', pdfPath = None, venue = None, publicationDate = None,
       tags = None, citekey = Some ''key'', bibtex = Some ''@b{y}'' \<rparr>"

definition example_frontmatter :: frontmatter where
  "example_frontmatter =
     \<lparr> fm_title = Some ''T'', fm_authors = Some ''A,B'', fm_abstract = None, fm_url = None,
       fm_venue = None, fm_year = None, fm_tags = None, fm_pdf = Some ''[[pdfs/T.pdf]]'',
       fm_citekey = None \<rparr>"

section \<open>Properties\<close>

subsection \<open>File names\<close>

lemma replace_global_class_filter:
  "replace_global (match_class (\<lambda>c. \<not> P c)) (string_replacer []) pre s = filter P s"
  by (induction s arbitrary: pre) (simp_all add: match_class_def string_replacer_def)

lemma filename_char_iff:
  "filename_char c \<longleftrightarrow>
     c \<in> set ''abcdefghijklmnopqrstuvwxyzABCDEFGHIJKLMNOPQRSTUVWXYZ0123456789 ''"
proof (cases c)
  case (Char b0 b1 b2 b3 b4 b5 b6 b7)
  show ?thesis
    unfolding Char filename_char_def in_range_def
    by (cases b0; cases b1; cases b2; cases b3; cases b4; cases b5; cases b6; cases b7; simp)
qed

text \<open>
  C9. The file name derived from a paper record is its title without every character
  that is not a letter \<^verbatim>\<open>a-z\<close>, \<^verbatim>\<open>A-Z\<close>, a digit or a space, the characters that stay
  in their order; the title \<^verbatim>\<open>GPT-4: Technical Report!\<close> gives
  \<^verbatim>\<open>GPT4 Technical Report\<close>.
\<close>

theorem constructFileName_strips:
  "constructFileName p =
     filter (\<lambda>c. c \<in> set ''abcdefghijklmnopqrstuvwxyzABCDEFGHIJKLMNOPQRSTUVWXYZ0123456789 '')
       (title p)
   \<and> constructFileName (p\<lparr>title := ''GPT-4: Technical Report!''\<rparr>) = ''GPT4 Technical Report''"
  unfolding constructFileName_def replace_global_class_filter
proof (intro conjI)
  show "filter filename_char (title p) =
     filter (\<lambda>c. c \<in> set ''abcdefghijklmnopqrstuvwxyzABCDEFGHIJKLMNOPQRSTUVWXYZ0123456789 '')
       (title p)"
    by (rule filter_cong) (simp_all only: filename_char_iff)
  show "filter filename_char (title (p\<lparr>title := ''GPT-4: Technical Report!''\<rparr>))
          = ''GPT4 Technical Report''"
    by (simp add: filename_char_def in_range_def)
qed

subsection \<open>Reading a note\<close>

lemma getPaperDataFromLocalFile_example:
  "getPaperDataFromLocalFile \<lparr>basename = ''Note'', cache_frontmatter = Some example_frontmatter\<rparr>
     = Inr \<lparr> title = ''T'', authors = [''A'', ''B''], abstract = [], url = [], pdfUrl = None,
             pdfPath = Some ''pdfs/T.pdf'', venue = Some [], publicationDate = Some [],
             tags = Some [], citekey = Some [], bibtex = None \<rparr>"
  by (simp add: getPaperDataFromLocalFile_def example_frontmatter_def match_link_def
      capture_lazy_def is_line_terminator_def)

text \<open>
  C1. The claim: a note whose front-matter has no authors, or that has no front-matter
  at all, is read without failure and gives the empty author list. The source fails on
  both: with a front-matter and no authors, \<^verbatim>\<open>split\<close> is called on \<^verbatim>\<open>undefined\<close>
  (line 37); without a front-matter, the link pattern is looked up in the empty string
  and the \<^verbatim>\<open>null\<close> result is indexed (line 33).
\<close>

theorem getPaperDataFromLocalFile_missing_authors_fails:
  "getPaperDataFromLocalFile
     \<lparr>basename = ''Note'', cache_frontmatter = Some (example_frontmatter\<lparr>fm_authors := None\<rparr>)\<rparr>
       = Inl TypeError
   \<and> getPaperDataFromLocalFile \<lparr>basename = ''Note'', cache_frontmatter = None\<rparr> = Inl TypeError"
  by (simp add: getPaperDataFromLocalFile_def example_frontmatter_def match_link_def
      capture_lazy_def is_line_terminator_def)

text \<open>
  C2. The claim: the reader fails exactly when a pdf field is present without the link
  wrapper, and does not fail when the pdf field is absent. The source fails on a
  front-matter without a pdf field: the field defaults to the empty string, the pattern
  does not match it, and the \<^verbatim>\<open>null\<close> result is indexed (lines 32 and 33).
\<close>

theorem getPaperDataFromLocalFile_missing_pdf_fails:
  "getPaperDataFromLocalFile
     \<lparr>basename = ''Note'', cache_frontmatter = Some (example_frontmatter\<lparr>fm_pdf := None\<rparr>)\<rparr>
       = Inl TypeError"
  by (simp add: getPaperDataFromLocalFile_def example_frontmatter_def match_link_def
      capture_lazy_def is_line_terminator_def)

subsection \<open>Saving a BibTeX entry\<close>

text \<open>
  C3. The claim: an entry that the BibTeX file does not contain is put ahead of the
  existing content of the file. The source appends it behind the existing content: the
  file \<^verbatim>\<open>refs.bib\<close> with the content \<^verbatim>\<open>@a{x}\<close> and a line feed, after saving the
  entry \<^verbatim>\<open>@b{y}\<close>, holds the old content first and the entry with two line feeds
  after it.
\<close>

theorem saveBibTex_appends_behind:
  "map_sum id (\<lambda>h. files h ''refs.bib'') (saveBibTex example_env ''@b{y}'' example_host)
     = Inr (Some (File ''@a{x}\<newline>@b{y}\<newline>\<newline>''))"
  by (simp add: saveBibTex_def example_env_def example_settings_def example_host_def
      adapter_exists_def notice_def vault_append_def sublist_Cons_right)

lemma saveBibTex_issue_complete:
  "saveBibTex e b h
     = map_sum id (\<lambda>(h', w). complete_pending failure w h') (saveBibTex_issue e b h)"
  by (auto simp add: saveBibTex_def saveBibTex_issue_def complete_pending_def complete_append_def
      vault_append_def adapter_exists_def Let_def notice_def
      split: option.splits node.splits bool.splits)

text \<open>
  C6, as stated: two calls with the same entry leave exactly one occurrence of the entry
  in the BibTeX file, for every entry. Without a BibTeX file in the vault neither call
  writes: the file is still absent after both. And a file that holds the entry twice
  holds it twice after both calls, since each call only looks whether the entry is
  contained. Both hold with the append of the first call completed before the second
  call starts.
\<close>

theorem saveBibTex_twice_not_one_occurrence:
  "files empty_host ''refs.bib'' = None
   \<and> map_sum id (file_occurrences ''@b{y}'' ''refs.bib'')
         (saveBibTex_twice_completed ''failed'' example_env ''@b{y}'' empty_host) = Inr None
   \<and> map_sum id (file_occurrences ''@b{y}'' ''refs.bib'')
         (saveBibTex_twice_completed ''failed'' example_env ''@b{y}''
            (empty_host\<lparr>files := [''refs.bib'' \<mapsto> File ''@b{y}\<newline>\<newline>@b{y}\<newline>\<newline>'']\<rparr>))
       = Inr (Some 2)"
  by (simp add: saveBibTex_twice_completed_def saveBibTex_issue_def complete_pending_def
      example_env_def example_settings_def empty_host_def adapter_exists_def notice_def
      file_occurrences_def sublist_Cons_right)

text \<open>
  When the second call runs while the append of the first is still under way, it does
  not find the entry and appends it again: the file then holds the entry twice.
\<close>

lemma saveBibTex_overlapping_calls_write_twice:
  "map_sum id (\<lambda>h. files h ''refs.bib'')
     (saveBibTex_twice_overlapping ''failed'' example_env ''@b{y}'' example_host)
     = Inr (Some (File ''@a{x}\<newline>@b{y}\<newline>\<newline>@b{y}\<newline>\<newline>''))"
  by (simp add: saveBibTex_twice_overlapping_def saveBibTex_issue_def complete_pending_def
      complete_append_def example_env_def example_settings_def example_host_def
      adapter_exists_def notice_def sublist_Cons_right Let_def)

text \<open>
  C6, amended. When saving is enabled, the location is set, the BibTeX file exists, and
  the append started by the first call has completed before the second call starts, the
  entry is written at most once. After the first call only the BibTeX file can differ:
  it is as it was when it held the entry already, and it is the old content followed by
  the entry and two line feeds otherwise; either way it contains the entry. The second
  call with the same entry finds the entry: it starts no append, its only effect is the
  notice that the entry exists, and every file is as the first call left it.
\<close>

theorem saveBibTex_twice_writes_once:
  assumes "saveBibTexSetting (settings e)" and "bibTexFileLocation (settings e) \<noteq> []"
    and "files h (bibTexFileLocation (settings e)) = Some (File old)"
  shows "\<exists>h1 c. saveBibTex e b h = Inr h1
           \<and> c = (if sublist b old then old else old @ b @ [CHR 0x0A, CHR 0x0A])
           \<and> files h1 = (files h)(bibTexFileLocation (settings e) \<mapsto> File c)
           \<and> sublist b c
           \<and> saveBibTex_issue e b h1 = Inr (notice ''BibTex entry already exists.'' h1, None)
           \<and> saveBibTex e b h1 = Inr (notice ''BibTex entry already exists.'' h1)
           \<and> files (notice ''BibTex entry already exists.'' h1) = files h1
           \<and> saveBibTex_twice_completed failure e b h
                = Inr (notice ''BibTex entry already exists.'' h1)"
proof (cases "sublist b old")
  case True
  from True assms have same: "(files h)(bibTexFileLocation (settings e) \<mapsto> File old) = files h"
    by (simp add: fun_upd_idem)
  from True assms same show ?thesis
    by (simp add: saveBibTex_twice_completed_def saveBibTex_issue_def saveBibTex_def
        complete_pending_def adapter_exists_def notice_def)
next
  case False
  have inc: "sublist b (old @ b @ [CHR 0x0A, CHR 0x0A])"
    by (rule sublist_appendI)
  from False assms inc show ?thesis
    by (simp add: saveBibTex_twice_completed_def saveBibTex_issue_def saveBibTex_def
        complete_pending_def complete_append_def adapter_exists_def notice_def vault_append_def)
qed

theorem saveBibTex_twice_writes_once_witness:
  "saveBibTexSetting (settings example_env)
   \<and> bibTexFileLocation (settings example_env) \<noteq> []
   \<and> files example_host (bibTexFileLocation (settings example_env)) = Some (File ''@a{x}\<newline>'')
   \<and> (\<exists>h1 c. saveBibTex example_env ''@b{y}'' example_host = Inr h1
           \<and> c = (if sublist ''@b{y}'' ''@a{x}\<newline>'' then ''@a{x}\<newline>''
                   else ''@a{x}\<newline>'' @ ''@b{y}'' @ [CHR 0x0A, CHR 0x0A])
           \<and> files h1 = (files example_host)(bibTexFileLocation (settings example_env) \<mapsto> File c)
           \<and> sublist ''@b{y}'' c
           \<and> saveBibTex_issue example_env ''@b{y}'' h1
                = Inr (notice ''BibTex entry already exists.'' h1, None)
           \<and> saveBibTex example_env ''@b{y}'' h1 = Inr (notice ''BibTex entry already exists.'' h1)
           \<and> files (notice ''BibTex entry already exists.'' h1) = files h1
           \<and> saveBibTex_twice_completed ''failed'' example_env ''@b{y}'' example_host
                = Inr (notice ''BibTex entry already exists.'' h1))"
proof -
  have a: "saveBibTexSetting (settings example_env)"
    by (simp add: example_env_def example_settings_def)
  have b: "bibTexFileLocation (settings example_env) \<noteq> []"
    by (simp add: example_env_def example_settings_def)
  have c: "files example_host (bibTexFileLocation (settings example_env))
             = Some (File ''@a{x}\<newline>'')"
    by (simp add: example_env_def example_settings_def example_host_def)
  from saveBibTex_twice_writes_once[OF a b c, of "''@b{y}''" "''failed''"] a b c show ?thesis
    by blast
qed

text \<open>
  C10. When the vault has nothing at the location of the BibTeX file, \<^verbatim>\<open>saveBibTex\<close>
  returns without an error and no file is created or written; when saving is enabled
  and the location is set, the notice \<^verbatim>\<open>BibTex file not found.\<close> is what it adds.
\<close>

theorem saveBibTex_file_not_found:
  assumes "files h (bibTexFileLocation (settings e)) = None"
  shows "\<exists>h'. saveBibTex e b h = Inr h'
           \<and> files h' = files h
           \<and> (saveBibTexSetting (settings e) \<and> bibTexFileLocation (settings e) \<noteq> []
                \<longrightarrow> notices h' = notices h @ [''BibTex file not found.''])"
  using assms by (auto simp add: saveBibTex_def adapter_exists_def notice_def Let_def)

theorem saveBibTex_file_not_found_witness:
  "files empty_host (bibTexFileLocation (settings example_env)) = None
   \<and> saveBibTexSetting (settings example_env)
   \<and> bibTexFileLocation (settings example_env) \<noteq> []
   \<and> (\<exists>h'. saveBibTex example_env ''@b{y}'' empty_host = Inr h'
           \<and> files h' = files empty_host
           \<and> notices h' = notices empty_host @ [''BibTex file not found.''])"
proof -
  have a: "saveBibTexSetting (settings example_env)"
    by (simp add: example_env_def example_settings_def)
  have b: "bibTexFileLocation (settings example_env) \<noteq> []"
    by (simp add: example_env_def example_settings_def)
  have c: "files empty_host (bibTexFileLocation (settings example_env)) = None"
    by (simp add: empty_host_def)
  from saveBibTex_file_not_found[OF c, of "''@b{y}''"] a b c show ?thesis
    by blast
qed

subsection \<open>Creating the note and downloading the PDF\<close>

text \<open>
  C7. When something exists at the target path, \<^verbatim>\<open>createFileFromPaperData\<close> returns
  without an error, leaves every file of the vault as it was, shows the notice that the
  file exists and opens the existing path in the workspace.
\<close>

theorem createFileFromPaperData_existing_note:
  assumes "files h pathToFile \<noteq> None"
  shows "\<exists>h'. createFileFromPaperData e p pathToFile h = Inr h'
           \<and> files h' = files h
           \<and> opened h' = opened h @ [pathToFile]
           \<and> notices h' = notices h @ [FILE_ALREADY_EXISTS e]"
  using assms
  by (simp add: createFileFromPaperData_def adapter_exists_def notice_def openLinkText_def
      Let_def)

theorem createFileFromPaperData_existing_note_witness:
  "files example_host ''notes/P.md'' \<noteq> None
   \<and> (\<exists>h'. createFileFromPaperData example_env example_paper ''notes/P.md'' example_host = Inr h'
           \<and> files h' = files example_host
           \<and> opened h' = opened example_host @ [''notes/P.md'']
           \<and> notices h' = notices example_host @ [FILE_ALREADY_EXISTS example_env])"
proof -
  have a: "files example_host ''notes/P.md'' \<noteq> None"
    by (simp add: example_host_def)
  from createFileFromPaperData_existing_note[OF a, of example_env example_paper] a
  show ?thesis by blast
qed

text \<open>
  C8. For every pdf URL (a URL that is present and not empty) and every file name, when
  something exists at the save path (download folder, separator, file name,
  \<^verbatim>\<open>.pdf\<close>), \<^verbatim>\<open>downloadPdf\<close> resolves with that path and the host is as before: no
  request was sent and no file was touched.
\<close>

theorem downloadPdf_existing_file:
  assumes "u \<noteq> []"
    and "files h (pdfDownloadLocation (settings e) @ pathSep e @ filename @ ''.pdf'') \<noteq> None"
  shows "downloadPdf e (Some u) filename h
           = (Inr (pdfDownloadLocation (settings e) @ pathSep e @ filename @ ''.pdf''), h)"
  using assms by (simp add: downloadPdf_def adapter_exists_def Let_def)

theorem downloadPdf_existing_file_witness:
  "''http://x/p.pdf'' \<noteq> []
   \<and> files example_host
       (pdfDownloadLocation (settings example_env) @ pathSep example_env @ ''P'' @ ''.pdf'')
     \<noteq> None
   \<and> downloadPdf example_env (Some ''http://x/p.pdf'') ''P'' example_host
       = (Inr (pdfDownloadLocation (settings example_env) @ pathSep example_env @ ''P'' @ ''.pdf''),
          example_host)"
proof -
  have a: "''http://x/p.pdf'' \<noteq> []" by simp
  have b: "files example_host
       (pdfDownloadLocation (settings example_env) @ pathSep example_env @ ''P'' @ ''.pdf'')
     \<noteq> None"
    by (simp add: example_env_def example_settings_def example_host_def)
  from downloadPdf_existing_file[OF a b] a b show ?thesis by blast
qed

subsection \<open>Rendering the template\<close>

text \<open>
  C4. The claim: every line feed of a substituted field value becomes a space. The
  source calls \<^verbatim>\<open>replace\<close> with the string pattern of one line feed, which replaces
  the first line feed only: the title \<^verbatim>\<open>a\<close>, line feed, \<^verbatim>\<open>b\<close>, line feed, \<^verbatim>\<open>c\<close> is
  rendered with the second line feed still in it.
\<close>

theorem render_replaces_first_newline_only:
  "render (\<lambda>format. format) (example_paper\<lparr>title := ''a\<newline>b\<newline>c''\<rparr>) ''{{title}}''
     = ''a b\<newline>c''"
  by (simp add: render_def example_paper_def replace_token_def replace_format_token_def
      match_literal_def match_lazy_def capture_lazy_def string_replacer_def replace_newline_def
      truthy_def)

text \<open>
  C5, as stated: a substituted value is never scanned for further tokens, and the output
  contains no metadata token. The source replaces one token after the other over the
  whole text: a title that is the text \<^verbatim>\<open>{{abstract}}\<close> is replaced by the abstract in
  the later pass; an abstract that is the text \<^verbatim>\<open>{{title}}\<close> stays in the output,
  since the pass of the title is over; and with an empty url the template
  \<^verbatim>\<open>{{u{{url}}rl}}\<close> is rendered to the token \<^verbatim>\<open>{{url}}\<close>.
\<close>

theorem render_rescans_substituted_values:
  "render (\<lambda>format. format) (example_paper\<lparr>title := ''{{abstract}}''\<rparr>) ''{{title}}'' = ''ABS''
   \<and> render (\<lambda>format. format) (example_paper\<lparr>abstract := ''{{title}}''\<rparr>) ''{{abstract}}''
       = ''{{title}}''
   \<and> render (\<lambda>format. format) (example_paper\<lparr>url := []\<rparr>) ''{{u{{url}}rl}}'' = ''{{url}}''"
  by (simp add: render_def example_paper_def replace_token_def replace_format_token_def
      match_literal_def match_lazy_def capture_lazy_def string_replacer_def replace_newline_def
      truthy_def)

lemma get_substitution_plain:
  "CHR ''$'' \<notin> set r \<Longrightarrow> get_substitution m pre post r = r"
  by (induction m pre post r rule: get_substitution.induct) auto

lemma no_match_not_prefix:
  assumes "\<not> prefix tok w" and "\<not> prefix w tok"
  shows "\<not> prefix tok (w @ r)"
proof
  assume "prefix tok (w @ r)"
  moreover have "prefix w (w @ r)" by simp
  ultimately have "prefix tok w \<or> prefix w tok" by (rule prefix_same_cases)
  with assms show False by simp
qed

lemma replace_global_skip:
  assumes req: "\<And>s. \<not> prefix opn s \<Longrightarrow> m s = None"
  shows "no_match_in opn w \<Longrightarrow>
     replace_global m f pre (w @ r) = w @ replace_global m f (pre @ w) r"
proof (induction w arbitrary: pre)
  case Nil
  then show ?case by simp
next
  case (Cons c cs)
  then have "\<not> prefix opn ((c # cs) @ r)"
    by (intro no_match_not_prefix) simp_all
  then have "m (c # cs @ r) = None" using req by simp
  with Cons show ?case by simp
qed

lemma replace_global_hit:
  assumes "m (w @ r) = Some (length w)" and "w \<noteq> []"
  shows "replace_global m f pre (w @ r) = f pre w r @ replace_global m f (pre @ w) r"
  using assms by (cases w) simp_all

lemma plain_no_match: "x \<notin> set l \<Longrightarrow> no_match_in (x # xs) l"
  by (induction l) auto

lemma match_literal_requires: "\<not> prefix tok s \<Longrightarrow> match_literal tok s = None"
  by (simp add: match_literal_def)

lemma match_lazy_requires: "\<not> prefix opn s \<Longrightarrow> match_lazy opn cls s = None"
  by (simp add: match_lazy_def capture_lazy_def)

lemma lazy_body_plain:
  "CHR ''}'' \<notin> set f \<Longrightarrow> \<not> list_ex is_line_terminator f \<Longrightarrow>
   lazy_body ''}}'' (f @ CHR ''}'' # CHR ''}'' # r) = Some (length f)"
  by (induction f) auto

lemma match_lazy_hit:
  assumes "CHR ''}'' \<notin> set f" and "\<not> list_ex is_line_terminator f"
  shows "match_lazy opn ''}}'' ((opn @ f @ ''}}'') @ r) = Some (length (opn @ f @ ''}}''))"
  using assms by (simp add: match_lazy_def capture_lazy_def lazy_body_plain)


lemma pass_replace_eq:
  "pass_replace gd p q s = replace_global (pass_matcher q) (pass_replacer gd p q) [] s"
  by (cases q) (simp_all add: replace_token_def replace_format_token_def)

lemma pass_matcher_requires: "\<not> prefix (pass_open q) s \<Longrightarrow> pass_matcher q s = None"
  by (cases q) (simp_all add: match_literal_requires match_lazy_requires)

lemma pass_open_brace: "\<exists>xs. pass_open q = CHR ''{'' # xs"
proof (cases q)
  case (PTok k)
  then show ?thesis by (cases k) simp_all
qed simp_all

lemma tokens_clash: "t \<noteq> k \<Longrightarrow> no_match_in (token_text k) (token_text t)"
  by (cases k; cases t; simp)

lemma format_tokens_clash:
  "no_match_in ''{{date:'' (token_text t)" "no_match_in ''{{time:'' (token_text t)"
  by (cases t; simp)+

lemma token_format_clash:
  assumes "CHR ''{'' \<notin> set f"
  shows "no_match_in (token_text k) (''{{date:'' @ f @ ''}}'')"
    and "no_match_in (token_text k) (''{{time:'' @ f @ ''}}'')"
proof -
  from assms have "CHR ''{'' \<notin> set (f @ ''}}'')" by simp
  then have "\<And>xs. no_match_in (CHR ''{'' # xs) (f @ ''}}'')" by (rule plain_no_match)
  then show "no_match_in (token_text k) (''{{date:'' @ f @ ''}}'')"
    and "no_match_in (token_text k) (''{{time:'' @ f @ ''}}'')"
    by (cases k; simp)+
qed

lemma format_format_clash:
  assumes "CHR ''{'' \<notin> set f"
  shows "no_match_in ''{{date:'' (''{{time:'' @ f @ ''}}'')"
    and "no_match_in ''{{time:'' (''{{date:'' @ f @ ''}}'')"
proof -
  from assms have "CHR ''{'' \<notin> set (f @ ''}}'')" by simp
  then have "\<And>xs. no_match_in (CHR ''{'' # xs) (f @ ''}}'')" by (rule plain_no_match)
  then show "no_match_in ''{{date:'' (''{{time:'' @ f @ ''}}'')"
    and "no_match_in ''{{time:'' (''{{date:'' @ f @ ''}}'')"
    by simp_all
qed

lemma pass_misses:
  assumes "plain_piece gd p pc" and "\<not> pass_hits q pc"
  shows "no_match_in (pass_open q) (piece_text pc)"
proof (cases pc)
  case (Lit l)
  obtain xs where "pass_open q = CHR ''{'' # xs" using pass_open_brace by blast
  with Lit assms show ?thesis by (simp add: plain_no_match)
next
  case (Tok t)
  with assms(2) show ?thesis
    by (cases q) (auto simp add: tokens_clash format_tokens_clash)
next
  case (DateFmt f)
  with assms have b: "CHR ''{'' \<notin> set f" by (simp add: plain_format_def)
  show ?thesis
  proof (cases q)
    case (PTok k)
    show ?thesis
      unfolding DateFmt PTok pass_open.simps piece_text.simps
      by (rule token_format_clash(1)[OF b])
  next
    case PDateFmt
    with DateFmt assms show ?thesis by simp
  next
    case PTimeFmt
    show ?thesis
      unfolding DateFmt PTimeFmt pass_open.simps piece_text.simps
      by (rule format_format_clash(2)[OF b])
  qed
next
  case (TimeFmt f)
  with assms have b: "CHR ''{'' \<notin> set f" by (simp add: plain_format_def)
  show ?thesis
  proof (cases q)
    case (PTok k)
    show ?thesis
      unfolding TimeFmt PTok pass_open.simps piece_text.simps
      by (rule token_format_clash(2)[OF b])
  next
    case PDateFmt
    show ?thesis
      unfolding TimeFmt PDateFmt pass_open.simps piece_text.simps
      by (rule format_format_clash(1)[OF b])
  next
    case PTimeFmt
    with TimeFmt assms show ?thesis by simp
  qed
qed

lemma pass_hit:
  assumes plain: "plain_piece gd p pc" and hit: "pass_hits q pc"
  shows "piece_text pc \<noteq> []"
    and "pass_matcher q (piece_text pc @ r) = Some (length (piece_text pc))"
    and "pass_replacer gd p q pre (piece_text pc) r = piece_value gd p pc"
proof -
  have "piece_text pc \<noteq> []
      \<and> pass_matcher q (piece_text pc @ r) = Some (length (piece_text pc))
      \<and> pass_replacer gd p q pre (piece_text pc) r = piece_value gd p pc"
  proof (cases q)
    case (PTok k)
    with hit have pc: "pc = Tok k" by simp
    with plain have dollar: "CHR ''$'' \<notin> set (field_text gd p k)" by simp
    obtain xs where "token_text k = CHR ''{'' # xs"
      using pass_open_brace[of "PTok k"] by auto
    then show ?thesis
      using PTok pc dollar
      by (simp add: match_literal_def string_replacer_def get_substitution_plain)
  next
    case PDateFmt
    with hit obtain f where pc: "pc = DateFmt f" by (cases pc) simp_all
    with plain have "CHR ''}'' \<notin> set f" and "\<not> list_ex is_line_terminator f"
      by (simp_all add: plain_format_def)
    from match_lazy_hit[OF this, of "''{{date:''" r] show ?thesis
      using PDateFmt pc by simp
  next
    case PTimeFmt
    with hit obtain f where pc: "pc = TimeFmt f" by (cases pc) simp_all
    with plain have "CHR ''}'' \<notin> set f" and "\<not> list_ex is_line_terminator f"
      by (simp_all add: plain_format_def)
    from match_lazy_hit[OF this, of "''{{time:''" r] show ?thesis
      using PTimeFmt pc by simp
  qed
  then show "piece_text pc \<noteq> []"
    and "pass_matcher q (piece_text pc @ r) = Some (length (piece_text pc))"
    and "pass_replacer gd p q pre (piece_text pc) r = piece_value gd p pc"
    by simp_all
qed

lemma pass_pieces:
  "list_all (plain_piece gd p) ps \<Longrightarrow>
     replace_global (pass_matcher q) (pass_replacer gd p q) pre (template_text ps)
       = template_text (map (pass_piece gd p q) ps)"
proof (induction ps arbitrary: pre)
  case Nil
  then show ?case by (simp add: template_text_def)
next
  case (Cons pc ps)
  let ?m = "pass_matcher q" and ?f = "pass_replacer gd p q"
  from Cons.prems have plain: "plain_piece gd p pc" and rest: "list_all (plain_piece gd p) ps"
    by simp_all
  have IH: "\<And>pre'. replace_global ?m ?f pre' (template_text ps)
               = template_text (map (pass_piece gd p q) ps)"
    using Cons.IH rest by simp
  show ?case
  proof (cases "pass_hits q pc")
    case True
    from pass_hit[OF plain True]
    have "replace_global ?m ?f pre (piece_text pc @ template_text ps)
            = piece_value gd p pc @ replace_global ?m ?f (pre @ piece_text pc) (template_text ps)"
      by (simp add: replace_global_hit)
    moreover from True have "piece_text (pass_piece gd p q pc) = piece_value gd p pc"
      by (simp add: pass_piece_def)
    ultimately show ?thesis using IH
      by (simp add: template_text_def)
  next
    case False
    have "replace_global ?m ?f pre (piece_text pc @ template_text ps)
            = piece_text pc @ replace_global ?m ?f (pre @ piece_text pc) (template_text ps)"
      by (rule replace_global_skip[where opn="pass_open q"])
         (simp_all add: pass_matcher_requires pass_misses[OF plain False])
    moreover from False have "piece_text (pass_piece gd p q pc) = piece_text pc"
      by (simp add: pass_piece_def)
    ultimately show ?thesis using IH
      by (simp add: template_text_def)
  qed
qed

lemma piece_value_plain:
  "plain_piece gd p pc \<Longrightarrow> CHR ''{'' \<notin> set (piece_value gd p pc)"
  by (cases pc) (simp_all add: plain_format_def)

lemma pass_plain:
  "list_all (plain_piece gd p) ps \<Longrightarrow> list_all (plain_piece gd p) (map (pass_piece gd p q) ps)"
proof (induction ps)
  case Nil
  then show ?case by simp
next
  case (Cons pc ps)
  then have "plain_piece gd p pc" by simp
  then have "plain_piece gd p (pass_piece gd p q pc)"
    by (simp add: pass_piece_def piece_value_plain)
  with Cons show ?case by simp
qed

lemma passes_pieces:
  "list_all (plain_piece gd p) ps \<Longrightarrow>
     foldl (\<lambda>s q. pass_replace gd p q s) (template_text ps) qs
       = template_text (run_passes gd p qs ps)"
proof (induction qs arbitrary: ps)
  case Nil
  then show ?case by (simp add: run_passes_def)
next
  case (Cons q qs)
  have "pass_replace gd p q (template_text ps) = template_text (map (pass_piece gd p q) ps)"
    unfolding pass_replace_eq using Cons.prems by (rule pass_pieces)
  moreover have "list_all (plain_piece gd p) (map (pass_piece gd p q) ps)"
    using Cons.prems by (rule pass_plain)
  ultimately show ?case
    using Cons.IH[of "map (pass_piece gd p q) ps"] by (simp add: run_passes_def)
qed

lemma render_as_passes:
  "render gd p s = foldl (\<lambda>s q. pass_replace gd p q s) s (passes p)"
  by (simp add: render_def passes_def Let_def)

lemma run_passes_piece:
  "piece_text (foldl (\<lambda>pc q. pass_piece gd p q pc) pc (passes p)) = expand_piece gd p pc"
proof (cases pc)
  case (Lit l)
  then show ?thesis by (simp add: passes_def pass_piece_def expand_piece_def)
next
  case (Tok t)
  then show ?thesis by (cases t) (simp_all add: passes_def pass_piece_def expand_piece_def)
next
  case (DateFmt f)
  then show ?thesis by (simp add: passes_def pass_piece_def expand_piece_def)
next
  case (TimeFmt f)
  then show ?thesis by (simp add: passes_def pass_piece_def expand_piece_def)
qed

lemma run_passes_map:
  "run_passes gd p qs ps = map (\<lambda>pc. foldl (\<lambda>pc q. pass_piece gd p q pc) pc qs) ps"
  unfolding run_passes_def
  by (induction qs arbitrary: ps) (simp_all add: comp_def)

lemma run_passes_expand: "template_text (run_passes gd p (passes p) ps) = expand gd p ps"
  by (simp add: run_passes_map template_text_def expand_def comp_def run_passes_piece)

lemma sublist_skip:
  "no_match_in tok w \<Longrightarrow> sublist tok (w @ r) = sublist tok r"
proof (induction w)
  case Nil
  then show ?case by simp
next
  case (Cons c cs)
  then have "\<not> prefix tok ((c # cs) @ r)"
    by (intro no_match_not_prefix) simp_all
  with Cons show ?case by (simp add: sublist_Cons_right)
qed

lemma no_token_in_expand:
  assumes t: "t \<noteq> TCitekey \<or> truthy (citekey p)"
  shows "list_all (plain_piece gd p) ps \<Longrightarrow> \<not> sublist (token_text t) (expand gd p ps)"
proof (induction ps)
  case Nil
  then show ?case by (cases t) (simp_all add: expand_def)
next
  case (Cons pc ps)
  obtain xs where tk: "token_text t = CHR ''{'' # xs"
    using pass_open_brace[of "PTok t"] by auto
  have "no_match_in (token_text t) (expand_piece gd p pc)"
  proof (cases "pc = Tok TCitekey \<and> \<not> truthy (citekey p)")
    case True
    with t have "TCitekey \<noteq> t" by auto
    then have "no_match_in (token_text t) (token_text TCitekey)" by (rule tokens_clash)
    moreover from True have "expand_piece gd p pc = token_text TCitekey"
      by (simp add: expand_piece_def)
    ultimately show ?thesis by (simp only:)
  next
    case False
    from Cons.prems have "plain_piece gd p pc" by simp
    then have "CHR ''{'' \<notin> set (piece_value gd p pc)" by (rule piece_value_plain)
    then have "no_match_in (CHR ''{'' # xs) (piece_value gd p pc)" by (rule plain_no_match)
    moreover from False have "expand_piece gd p pc = piece_value gd p pc"
      by (auto simp add: expand_piece_def)
    ultimately show ?thesis by (simp only: tk)
  qed
  then have "sublist (token_text t) (expand_piece gd p pc @ expand gd p ps)
               = sublist (token_text t) (expand gd p ps)"
    by (rule sublist_skip)
  with Cons show ?case by (simp add: expand_def)
qed

text \<open>
  C5, amended. Rendering is a fixed sequence of global replacements, so a value is
  scanned by the passes that follow its own. For a template that is made of literal
  text without an opening brace and of tokens (date, time, title, authors, abstract,
  url, venue, publicationDate, tags, pdf, citekey, each with a value that has neither
  an opening brace nor a dollar sign, and date and time with a format that has no brace
  and no line terminator and is formatted to a text without an opening brace), the
  output is the template with every token replaced by its value in one pass, and no
  token without a format occurs in it, but for \<^verbatim>\<open>{{citekey}}\<close> when the record has
  no cite key.
\<close>

theorem render_single_pass:
  assumes "list_all (plain_piece gd p) ps"
  shows "render gd p (template_text ps) = expand gd p ps
       \<and> (\<forall>t. t \<noteq> TCitekey \<or> truthy (citekey p)
              \<longrightarrow> \<not> sublist (token_text t) (render gd p (template_text ps)))"
proof -
  from assms have r: "render gd p (template_text ps) = expand gd p ps"
    by (simp add: render_as_passes passes_pieces run_passes_expand)
  from assms show ?thesis
    unfolding r by (simp add: no_token_in_expand)
qed

theorem render_single_pass_witness:
  "list_all (plain_piece (\<lambda>format. format) (example_paper\<lparr>title := ''Attention Is All You Need''\<rparr>))
      [Tok TTitle, Lit '' by '', Tok TAuthors, Lit '', '', DateFmt ''YYYY'']
   \<and> render (\<lambda>format. format) (example_paper\<lparr>title := ''Attention Is All You Need''\<rparr>)
       ''{{title}} by {{authors}}, {{date:YYYY}}'' = ''Attention Is All You Need by A, B, YYYY''
   \<and> \<not> sublist ''{{title}}''
         (render (\<lambda>format. format) (example_paper\<lparr>title := ''Attention Is All You Need''\<rparr>)
            ''{{title}} by {{authors}}, {{date:YYYY}}'')"
proof -
  let ?p = "example_paper\<lparr>title := ''Attention Is All You Need''\<rparr>"
  let ?gd = "\<lambda>format :: string. format"
  let ?ps = "[Tok TTitle, Lit '' by '', Tok TAuthors, Lit '', '', DateFmt ''YYYY'']"
  have a: "list_all (plain_piece ?gd ?p) ?ps"
    by (simp add: plain_format_def is_line_terminator_def example_paper_def replace_newline_def)
  have c: "template_text ?ps = ''{{title}} by {{authors}}, {{date:YYYY}}''"
    by (simp add: template_text_def)
  have d: "expand ?gd ?p ?ps = ''Attention Is All You Need by A, B, YYYY''"
    by (simp add: expand_def expand_piece_def example_paper_def replace_newline_def truthy_def)
  have e: "token_text TTitle = ''{{title}}''" by simp
  from render_single_pass[OF a]
  have r1: "render ?gd ?p (template_text ?ps) = expand ?gd ?p ?ps"
    by (rule conjunct1)
  from render_single_pass[OF a]
  have r2: "\<forall>t. t \<noteq> TCitekey \<or> truthy (citekey ?p)
              \<longrightarrow> \<not> sublist (token_text t) (render ?gd ?p (template_text ?ps))"
    by (rule conjunct2)
  have f: "TTitle \<noteq> TCitekey" by simp
  from r2 f have r3: "\<not> sublist (token_text TTitle) (render ?gd ?p (template_text ?ps))"
    by blast
  from r1 r3 a show ?thesis unfolding c d e by blast
qed

end
